theory Spec2Isabelle
  imports Main
begin

section \<open>Type checking of distributed actors (lib/Sema/TypeCheckDistributed.cpp)\<close>

subsection \<open>Declarations, types and diagnostics\<close>

text \<open>
  The checks read an already built declaration tree. A declaration object is identified by
  its address (the C++ code compares and anchors diagnostics on \<^verbatim>\<open>Decl *\<close> pointers);
  identifiers, declaration names and canonical types are identified by their text.
\<close>

type_synonym DeclAddr = nat
type_synonym Identifier = string
type_synonym DeclName = string
type_synonym Type = string
type_synonym ModuleDecl = string
type_synonym ProtocolDecl = DeclAddr

datatype KnownProtocolKind = Encodable | Decodable | ActorTransport

datatype ProtocolConformanceRef = Invalid | Conformance

fun isInvalid :: "ProtocolConformanceRef \<Rightarrow> bool" where
  "isInvalid Invalid = True"
| "isInvalid Conformance = False"

text \<open>The diagnostic kinds of \<^verbatim>\<open>diag::\<close> that this file emits, and their arguments.\<close>

datatype Diag =
    distributed_actor_needs_explicit_distributed_import
  | distributed_actor_func_param_not_codable
  | distributed_actor_func_result_not_codable
  | distributed_actor_remote_func_implemented_manually
  | distributed_actor_user_defined_special_property
  | distributed_actor_designated_ctor_missing_transport_param
  | distributed_actor_designated_ctor_must_have_one_transport_param

datatype DiagArg =
    ArgString string
  | ArgIdentifier Identifier
  | ArgDeclName DeclName
  | ArgType Type
  | ArgInt int

record Diagnostic =
  Loc :: DeclAddr
  ID :: Diag
  Args :: "DiagArg list"

record Decl =
  Addr :: DeclAddr

record VarDecl = Decl +
  getVarName :: Identifier

record ParamDecl = Decl +
  getArgumentName :: Identifier
  getInterfaceType :: Type

record AbstractFunctionDecl = Decl +
  getName :: DeclName
  getBaseIdentifier :: Identifier
  getParameters :: "ParamDecl list"
  mapTypeIntoContext :: "Type \<Rightarrow> Type"
  getParentModule :: ModuleDecl
  isSynthesized :: bool

record FuncDecl = AbstractFunctionDecl +
  getResultInterfaceType :: Type
  hasDistributedActorAttr :: bool

record ConstructorDecl = AbstractFunctionDecl +
  isDesignatedInit :: bool

text \<open>
  A member of a class, as \<^verbatim>\<open>dyn_cast\<close> sees it: a property, a constructor, a function
  or a declaration of another kind.
\<close>

datatype Member =
    Member_VarDecl VarDecl
  | Member_ConstructorDecl ConstructorDecl
  | Member_FuncDecl FuncDecl
  | Member_OtherDecl Decl

record ClassDecl = Decl +
  isExplicitDistributedActor :: bool
  getMembers :: "Member list"

datatype NominalTypeDecl =
    Nominal_ProtocolDecl ProtocolDecl
  | Nominal_ClassDecl ClassDecl
  | Nominal_StructDecl Decl
  | Nominal_EnumDecl Decl

datatype DeclContext =
    NominalTypeDeclContext NominalTypeDecl
  | OtherDeclContext

subsection \<open>The compilation context\<close>

text \<open>
  The first group of fields is the part of \<^verbatim>\<open>ASTContext\<close> that the file reads. The
  second group are the queries of the compiler that the file calls and does not define (the
  conformance engine, protocol inheritance, the declaration graph, the remote-counterpart
  lookup and member synthesis); they are parameters of the model.
\<close>

record ASTContext =
  getLoadedModule :: "Identifier \<Rightarrow> ModuleDecl option"
  Id_Distributed :: Identifier
  Id_actorTransport :: Identifier
  Id_id :: Identifier
  getDistributedActorDecl :: ProtocolDecl
  getProtocol :: "KnownProtocolKind \<Rightarrow> ProtocolDecl"
  conformsToProtocol :: "Type \<Rightarrow> ProtocolDecl \<Rightarrow> ModuleDecl \<Rightarrow> ProtocolConformanceRef"
  inheritsFrom :: "ProtocolDecl \<Rightarrow> ProtocolDecl \<Rightarrow> bool"
  getDeclaredInterfaceType :: "ProtocolDecl \<Rightarrow> Type"
  isVoid :: "Type \<Rightarrow> bool"
  getParent :: "DeclAddr \<Rightarrow> DeclContext"
  lookupDirectRemoteFunc :: "ClassDecl \<Rightarrow> FuncDecl \<Rightarrow> FuncDecl option"
  getDefaultInitializer :: "ClassDecl \<Rightarrow> ClassDecl"
  addImplicitDistributedActorMembersToClass :: "ClassDecl \<Rightarrow> ClassDecl"

text \<open>
  What a check can change: the diagnostics emitted so far, in emission order, and the
  evaluator's table of results of the module-availability request, keyed by declaration.
\<close>

record CheckerState =
  Diags :: "Diagnostic list"
  ModuleIsAvailableCache :: "DeclAddr \<Rightarrow> bool option"

definition diagnose :: "DeclAddr \<Rightarrow> Diag \<Rightarrow> DiagArg list \<Rightarrow> CheckerState \<Rightarrow> CheckerState" where
  "diagnose loc d args s = s\<lparr>Diags := Diags s @ [\<lparr>Loc = loc, ID = d, Args = args\<rparr>]\<rparr>"

subsection \<open>The availability gate\<close>




subsection \<open>Classification queries\<close>

text \<open>
  The request reads the declaration and returns; like every function of the file it is
  embedded on the checker state, which it hands back as it received it.
\<close>

fun IsDistributedActorRequest_evaluate ::
  "ASTContext \<Rightarrow> NominalTypeDecl \<Rightarrow> CheckerState \<Rightarrow> bool \<times> CheckerState" where
  "IsDistributedActorRequest_evaluate C (Nominal_ProtocolDecl protocol) s =
     (protocol = getDistributedActorDecl C \<or> inheritsFrom C protocol (getDistributedActorDecl C), s)"
| "IsDistributedActorRequest_evaluate C (Nominal_ClassDecl classDecl) s =
     (isExplicitDistributedActor classDecl, s)"
| "IsDistributedActorRequest_evaluate C (Nominal_StructDecl d) s = (False, s)"
| "IsDistributedActorRequest_evaluate C (Nominal_EnumDecl d) s = (False, s)"

definition IsDistributedFuncRequest_evaluate :: "FuncDecl \<Rightarrow> bool" where
  "IsDistributedFuncRequest_evaluate func = (if hasDistributedActorAttr func then True else False)"

text \<open>
  Modelled from the spec: \<^verbatim>\<open>NominalTypeDecl::isDistributedActor()\<close>, declared outside
  this file, is the classification query of the declaration. The request has no effect and
  reads only the immutable declaration, so its memoization cannot be observed and the query
  is the request's evaluation.
\<close>

definition isDistributedActor ::
  "ASTContext \<Rightarrow> NominalTypeDecl \<Rightarrow> CheckerState \<Rightarrow> bool \<times> CheckerState" where
  "isDistributedActor C nominal s = IsDistributedActorRequest_evaluate C nominal s"

subsection \<open>Distributed functions\<close>

datatype error = AssertionFailed

text \<open>
  The parameter loop of \<^verbatim>\<open>checkDistributedFunction\<close>. \<open>Some s'\<close>: the loop returned
  \<^verbatim>\<open>true\<close> from the function, leaving the state \<open>s'\<close>; \<open>None\<close>: the loop ran to its end.
\<close>

fun checkParameters ::
  "ASTContext \<Rightarrow> FuncDecl \<Rightarrow> bool \<Rightarrow> ParamDecl list \<Rightarrow> CheckerState \<Rightarrow> CheckerState option" where
  "checkParameters C func diag [] s = None"
| "checkParameters C func diag (param # rest) s =
     (let paramTy = mapTypeIntoContext func (getInterfaceType param) in
      if isInvalid (conformsToProtocol C paramTy (getProtocol C Encodable) (getParentModule func)) \<or>
         isInvalid (conformsToProtocol C paramTy (getProtocol C Decodable) (getParentModule func))
      then Some (if diag
                 then diagnose (Addr func) distributed_actor_func_param_not_codable
                        [ArgString (getArgumentName param), ArgType (getInterfaceType param)] s
                 else s)
      else checkParameters C func diag rest s)"

text \<open>
  \<^verbatim>\<open>dyn_cast<ClassDecl>(func->getParent())\<close>: the class, or null when the enclosing
  context is not a class declaration.
\<close>

fun dyn_cast_ClassDecl :: "DeclContext \<Rightarrow> ClassDecl option" where
  "dyn_cast_ClassDecl (NominalTypeDeclContext (Nominal_ClassDecl c)) = Some c"
| "dyn_cast_ClassDecl _ = None"

text \<open>
  The function returns \<open>Inr b\<close> for the C++ return value \<open>b\<close> (\<^verbatim>\<open>true\<close>: there was a
  problem), and \<open>Inl AssertionFailed\<close> when the \<^verbatim>\<open>assert\<close> on the enclosing declaration
  fails (a build with assertions).
\<close>

definition checkDistributedFunction ::
  "ASTContext \<Rightarrow> FuncDecl \<Rightarrow> bool \<Rightarrow> CheckerState \<Rightarrow> (error + bool) \<times> CheckerState" where
  "checkDistributedFunction C func diag s =
     (let encodableType = getProtocol C Encodable;
          decodableType = getProtocol C Decodable;
          module = getParentModule func
      in case checkParameters C func diag (getParameters func) s of
           Some s' \<Rightarrow> (Inr True, s')
         | None \<Rightarrow>
             (let resultType = mapTypeIntoContext func (getResultInterfaceType func) in
              if \<not> isVoid C resultType \<and>
                 (isInvalid (conformsToProtocol C resultType decodableType module) \<or>
                  isInvalid (conformsToProtocol C resultType encodableType module))
              then (Inr True,
                    if diag
                    then diagnose (Addr func) distributed_actor_func_result_not_codable
                           [ArgType (getResultInterfaceType func)] s
                    else s)
              else
                (case dyn_cast_ClassDecl (getParent C (Addr func)) of
                   None \<Rightarrow> (Inl AssertionFailed, s)
                 | Some actorDecl \<Rightarrow>
                     (case isDistributedActor C (Nominal_ClassDecl actorDecl) s of
                        (False, s1) \<Rightarrow> (Inl AssertionFailed, s1)
                      | (True, s1) \<Rightarrow>
                          (case lookupDirectRemoteFunc C actorDecl func of
                             None \<Rightarrow> (Inr False, s1)
                           | Some remoteFuncDecl \<Rightarrow>
                               if \<not> isSynthesized remoteFuncDecl
                               then (Inr True,
                                     if diag
                                     then diagnose (Addr func)
                                            distributed_actor_remote_func_implemented_manually
                                            [ArgIdentifier (getBaseIdentifier func),
                                             ArgIdentifier (''_remote_'' @ getBaseIdentifier func)] s1
                                     else s1)
                               else (Inr False, s1))))))"

subsection \<open>Properties and constructors of a distributed actor\<close>

fun checkDistributedActorProperties_loop ::
  "ASTContext \<Rightarrow> Member list \<Rightarrow> CheckerState \<Rightarrow> CheckerState" where
  "checkDistributedActorProperties_loop C [] s = s"
| "checkDistributedActorProperties_loop C (Member_VarDecl prop # rest) s =
     (let id = getVarName prop in
      if id = Id_actorTransport C \<or> id = Id_id C
      then checkDistributedActorProperties_loop C rest
             (diagnose (Addr prop) distributed_actor_user_defined_special_property
                [ArgIdentifier id] s)
      else checkDistributedActorProperties_loop C rest s)"
| "checkDistributedActorProperties_loop C (member # rest) s =
     checkDistributedActorProperties_loop C rest s"

definition checkDistributedActorProperties :: "ASTContext \<Rightarrow> ClassDecl \<Rightarrow> CheckerState \<Rightarrow> CheckerState" where
  "checkDistributedActorProperties C decl s = checkDistributedActorProperties_loop C (getMembers decl) s"

text \<open>
  The parameter loop of \<^verbatim>\<open>checkDistributedActorConstructor\<close>, on its two local
  variables: the counter \<^verbatim>\<open>transportParamsCount\<close> and the vector \<^verbatim>\<open>transportParams\<close>.
  The counter is a C \<^verbatim>\<open>int\<close> that counts parameters of one declaration; it is an
  unbounded integer here.
\<close>

fun collectTransportParams ::
  "ASTContext \<Rightarrow> ConstructorDecl \<Rightarrow> ParamDecl list \<Rightarrow> int \<times> ParamDecl list \<Rightarrow> int \<times> ParamDecl list" where
  "collectTransportParams C ctor [] acc = acc"
| "collectTransportParams C ctor (param # rest) (transportParamsCount, transportParams) =
     (let protocolDecl = getProtocol C ActorTransport;
          protocolTy = getDeclaredInterfaceType C protocolDecl;
          paramTy = mapTypeIntoContext ctor (getInterfaceType param);
          conformance = conformsToProtocol C paramTy protocolDecl (getParentModule ctor)
      in if paramTy = protocolTy \<or> \<not> isInvalid conformance
         then collectTransportParams C ctor rest (transportParamsCount + 1, transportParams @ [param])
         else collectTransportParams C ctor rest (transportParamsCount, transportParams))"

definition checkDistributedActorConstructor ::
  "ASTContext \<Rightarrow> ClassDecl \<Rightarrow> ConstructorDecl \<Rightarrow> CheckerState \<Rightarrow> CheckerState" where
  "checkDistributedActorConstructor C decl ctor s =
     (case isDistributedActor C (Nominal_ClassDecl decl) s of
        (False, s0) \<Rightarrow> s0
      | (True, s0) \<Rightarrow>
          if \<not> isDesignatedInit ctor then s0
          else
            (case collectTransportParams C ctor (getParameters ctor) (0, []) of
               (transportParamsCount, transportParams) \<Rightarrow>
                 if transportParamsCount = 0
                 then diagnose (Addr ctor) distributed_actor_designated_ctor_missing_transport_param
                        [ArgDeclName (getName ctor)] s0
                 else if transportParamsCount = 1 then s0
                 else diagnose (Addr ctor)
                        distributed_actor_designated_ctor_must_have_one_transport_param
                        [ArgDeclName (getName ctor), ArgInt transportParamsCount] s0))"

subsection \<open>The actor declaration checker\<close>



subsection \<open>Vocabulary of the properties\<close>

text \<open>
  The Codable contract on a contextual type of a function: conformance to the encoding and to
  the decoding protocol in the function's module.
\<close>

definition typeIsCodable :: "ASTContext \<Rightarrow> FuncDecl \<Rightarrow> Type \<Rightarrow> bool" where
  "typeIsCodable C func ty =
     (conformsToProtocol C ty (getProtocol C Encodable) (getParentModule func) = Conformance \<and>
      conformsToProtocol C ty (getProtocol C Decodable) (getParentModule func) = Conformance)"

definition parameterIsCodable :: "ASTContext \<Rightarrow> FuncDecl \<Rightarrow> ParamDecl \<Rightarrow> bool" where
  "parameterIsCodable C func param =
     typeIsCodable C func (mapTypeIntoContext func (getInterfaceType param))"

definition parameterNotCodable :: "ASTContext \<Rightarrow> FuncDecl \<Rightarrow> ParamDecl \<Rightarrow> bool" where
  "parameterNotCodable C func param = (\<not> parameterIsCodable C func param)"

text \<open>
  A transport parameter of a constructor: its contextual type is the declared interface type
  of the transport protocol, or conforms to that protocol.
\<close>

definition isTransportParameter :: "ASTContext \<Rightarrow> ConstructorDecl \<Rightarrow> ParamDecl \<Rightarrow> bool" where
  "isTransportParameter C ctor param =
     (mapTypeIntoContext ctor (getInterfaceType param) =
        getDeclaredInterfaceType C (getProtocol C ActorTransport) \<or>
      conformsToProtocol C (mapTypeIntoContext ctor (getInterfaceType param))
        (getProtocol C ActorTransport) (getParentModule ctor) = Conformance)"

definition transportParameterCount :: "ASTContext \<Rightarrow> ConstructorDecl \<Rightarrow> int" where
  "transportParameterCount C ctor =
     int (length (filter (isTransportParameter C ctor) (getParameters ctor)))"

text \<open>The property members that carry a reserved identifier, in member order.\<close>

definition reservedProperty :: "ASTContext \<Rightarrow> Member \<Rightarrow> VarDecl list" where
  "reservedProperty C member =
     (case member of
        Member_VarDecl prop \<Rightarrow>
          if getVarName prop \<in> {Id_actorTransport C, Id_id C} then [prop] else []
      | Member_ConstructorDecl ctor \<Rightarrow> []
      | Member_FuncDecl func \<Rightarrow> []
      | Member_OtherDecl d \<Rightarrow> [])"

definition reservedProperties :: "ASTContext \<Rightarrow> Member list \<Rightarrow> VarDecl list" where
  "reservedProperties C members = concat (map (reservedProperty C) members)"

definition reservedPropertyDiagnostic :: "VarDecl \<Rightarrow> Diagnostic" where
  "reservedPropertyDiagnostic prop =
     \<lparr>Loc = Addr prop, ID = distributed_actor_user_defined_special_property,
      Args = [ArgIdentifier (getVarName prop)]\<rparr>"

fun isPropertyMember :: "Member \<Rightarrow> bool" where
  "isPropertyMember (Member_VarDecl prop) = True"
| "isPropertyMember (Member_ConstructorDecl ctor) = False"
| "isPropertyMember (Member_FuncDecl func) = False"
| "isPropertyMember (Member_OtherDecl d) = False"

text \<open>The diagnostics that a run added to those of the state it started from.\<close>

definition emitted :: "CheckerState \<Rightarrow> CheckerState \<Rightarrow> Diagnostic list" where
  "emitted s s' = drop (length (Diags s)) (Diags s')"

text \<open>
  The result type of a function passes: it is the void type, or it meets the Codable contract.
\<close>

definition resultIsAcceptable :: "ASTContext \<Rightarrow> FuncDecl \<Rightarrow> bool" where
  "resultIsAcceptable C func =
     (isVoid C (mapTypeIntoContext func (getResultInterfaceType func)) \<or>
      typeIsCodable C func (mapTypeIntoContext func (getResultInterfaceType func)))"

text \<open>
  The precondition of \<^verbatim>\<open>checkDistributedFunction\<close>: the enclosing declaration of the
  function is a class, and the class is classified as a distributed actor.
\<close>

definition enclosedByDistributedActorClass :: "ASTContext \<Rightarrow> FuncDecl \<Rightarrow> CheckerState \<Rightarrow> bool" where
  "enclosedByDistributedActorClass C func s =
     (case dyn_cast_ClassDecl (getParent C (Addr func)) of
        None \<Rightarrow> False
      | Some actorDecl \<Rightarrow> fst (isDistributedActor C (Nominal_ClassDecl actorDecl) s))"


subsection \<open>A small compilation, for evaluating the checks on concrete declarations\<close>

definition exampleContext :: ASTContext where
  "exampleContext =
     \<lparr>getLoadedModule = (\<lambda>m. if m = ''_Distributed'' then Some ''_Distributed'' else None),
      Id_Distributed = ''_Distributed'',
      Id_actorTransport = ''actorTransport'',
      Id_id = ''id'',
      getDistributedActorDecl = 1,
      getProtocol = (\<lambda>k. case k of Encodable \<Rightarrow> 2 | Decodable \<Rightarrow> 3 | ActorTransport \<Rightarrow> 4),
      conformsToProtocol =
        (\<lambda>ty p m.
           if (p = 2 \<or> p = 3) \<and> (ty = ''Int'' \<or> ty = ''String'') then Conformance
           else if p = 4 \<and> ty = ''FakeTransport'' then Conformance
           else Invalid),
      inheritsFrom = (\<lambda>p q. p = 10 \<and> q = 1),
      getDeclaredInterfaceType = (\<lambda>p. if p = 4 then ''ActorTransport'' else ''Protocol''),
      isVoid = (\<lambda>ty. ty = ''()''),
      getParent =
        (\<lambda>a. if a = 100 \<or> a = 101
             then NominalTypeDeclContext (Nominal_ClassDecl
                    \<lparr>Addr = 50, isExplicitDistributedActor = True, getMembers = []\<rparr>)
             else OtherDeclContext),
      lookupDirectRemoteFunc =
        (\<lambda>actorDecl func.
           if Addr func = 101
           then Some \<lparr>Addr = 111, getName = ''_remote_greet'', getBaseIdentifier = ''_remote_greet'',
                       getParameters = [], mapTypeIntoContext = (\<lambda>ty. ty),
                       getParentModule = ''Main'', isSynthesized = False,
                       getResultInterfaceType = ''String'', hasDistributedActorAttr = False\<rparr>
           else None),
      getDefaultInitializer = (\<lambda>decl. decl),
      addImplicitDistributedActorMembersToClass =
        (\<lambda>decl. decl\<lparr>getMembers := getMembers decl @
                   [Member_VarDecl \<lparr>Addr = 900, getVarName = ''id''\<rparr>,
                    Member_VarDecl \<lparr>Addr = 901, getVarName = ''actorTransport''\<rparr>]\<rparr>)\<rparr>"

definition exampleState :: CheckerState where
  "exampleState = \<lparr>Diags = [], ModuleIsAvailableCache = (\<lambda>decl. None)\<rparr>"

definition exampleParam :: "DeclAddr \<Rightarrow> Identifier \<Rightarrow> Type \<Rightarrow> ParamDecl" where
  "exampleParam a label ty = \<lparr>Addr = a, getArgumentName = label, getInterfaceType = ty\<rparr>"

definition exampleFunc :: "DeclAddr \<Rightarrow> ParamDecl list \<Rightarrow> Type \<Rightarrow> FuncDecl" where
  "exampleFunc a params resultTy =
     \<lparr>Addr = a, getName = ''greet'', getBaseIdentifier = ''greet'', getParameters = params,
      mapTypeIntoContext = (\<lambda>ty. ty), getParentModule = ''Main'', isSynthesized = False,
      getResultInterfaceType = resultTy, hasDistributedActorAttr = True\<rparr>"

definition exampleCtor :: "DeclAddr \<Rightarrow> ParamDecl list \<Rightarrow> bool \<Rightarrow> ConstructorDecl" where
  "exampleCtor a params designated =
     \<lparr>Addr = a, getName = ''init'', getBaseIdentifier = ''init'', getParameters = params,
      mapTypeIntoContext = (\<lambda>ty. ty), getParentModule = ''Main'', isSynthesized = False,
      isDesignatedInit = designated\<rparr>"

definition exampleClass :: "bool \<Rightarrow> Member list \<Rightarrow> ClassDecl" where
  "exampleClass marked members =
     \<lparr>Addr = 50, isExplicitDistributedActor = marked, getMembers = members\<rparr>"


definition exampleMembers :: "Member list" where
  "exampleMembers =
     [Member_VarDecl \<lparr>Addr = 51, getVarName = ''id''\<rparr>,
      Member_FuncDecl (exampleFunc 100 [exampleParam 1 ''name'' ''String''] ''String''),
      Member_VarDecl \<lparr>Addr = 52, getVarName = ''name''\<rparr>,
      Member_ConstructorDecl (exampleCtor 60 [exampleParam 61 ''name'' ''String''] True),
      Member_VarDecl \<lparr>Addr = 53, getVarName = ''actorTransport''\<rparr>]"


text \<open>
  The example compilation with every function enclosed by a class that does not carry the
  distributed-actor marker.
\<close>

definition exampleContextUnmarkedClass :: ASTContext where
  "exampleContextUnmarkedClass =
     exampleContext\<lparr>getParent :=
       (\<lambda>a. NominalTypeDeclContext (Nominal_ClassDecl
              \<lparr>Addr = 50, isExplicitDistributedActor = False, getMembers = []\<rparr>))\<rparr>"

section \<open>Properties\<close>

subsection \<open>Auxiliary facts\<close>

lemma isDistributedActor_class:
  "isDistributedActor C (Nominal_ClassDecl decl) s = (isExplicitDistributedActor decl, s)"
  by (simp add: isDistributedActor_def)

lemma isInvalid_iff: "isInvalid r \<longleftrightarrow> r \<noteq> Conformance"
  by (cases r) simp_all

lemma diagnose_Diags:
  "Diags (diagnose loc d args s) = Diags s @ [\<lparr>Loc = loc, ID = d, Args = args\<rparr>]"
  by (simp add: diagnose_def)

lemma emitted_same: "emitted s s = []"
  by (simp add: emitted_def)

lemma emitted_diagnose: "emitted s (diagnose loc d args s) = [\<lparr>Loc = loc, ID = d, Args = args\<rparr>]"
  by (simp add: emitted_def diagnose_def)


text \<open>The constructor loop counts and collects the transport parameters.\<close>

lemma collectTransportParams_filter:
  "collectTransportParams C ctor params (n, tps) =
     (n + int (length (filter (isTransportParameter C ctor) params)),
      tps @ filter (isTransportParameter C ctor) params)"
  by (induction params arbitrary: n tps)
     (simp_all add: isTransportParameter_def isInvalid_iff Let_def)

lemma checkDistributedActorConstructor_eq:
  "checkDistributedActorConstructor C decl ctor s =
     (if isExplicitDistributedActor decl \<and> isDesignatedInit ctor
      then (if transportParameterCount C ctor = 0
            then diagnose (Addr ctor) distributed_actor_designated_ctor_missing_transport_param
                   [ArgDeclName (getName ctor)] s
            else if transportParameterCount C ctor = 1 then s
            else diagnose (Addr ctor) distributed_actor_designated_ctor_must_have_one_transport_param
                   [ArgDeclName (getName ctor), ArgInt (transportParameterCount C ctor)] s)
      else s)"
  by (simp add: checkDistributedActorConstructor_def isDistributedActor_class
        collectTransportParams_filter transportParameterCount_def split: bool.splits)

text \<open>The property loop appends one diagnostic for each reserved property, in member order.\<close>

lemma properties_loop_eq:
  "checkDistributedActorProperties_loop C members s =
     s\<lparr>Diags := Diags s @ map reservedPropertyDiagnostic (reservedProperties C members)\<rparr>"
proof (induction members arbitrary: s)
  case Nil
  show ?case by (simp add: reservedProperties_def)
next
  case (Cons member rest)
  show ?case
    by (cases member)
       (simp_all add: Cons.IH reservedProperties_def reservedProperty_def Let_def diagnose_def
          reservedPropertyDiagnostic_def)
qed

lemma reservedProperties_filter:
  "reservedProperties C (filter isPropertyMember members) = reservedProperties C members"
proof (induction members)
  case Nil
  show ?case by simp
next
  case (Cons member rest)
  then show ?case
    by (cases member) (simp_all add: reservedProperties_def reservedProperty_def)
qed

subsection \<open>Classification of nominal types\<close>

text \<open>
  Claim C5. For every nominal type declaration, \<open>isDistributedActor\<close> answers true exactly
  when the declaration is a protocol that is the \<open>DistributedActor\<close> protocol or inherits
  from it, or is a class that carries the explicit distributed-actor marker; it answers false
  for a declaration of any other shape. The evaluation hands the checker state back unchanged:
  it emits no diagnostic.
\<close>

theorem isDistributedActor_classification:
  "isDistributedActor C nominal s =
     ((case nominal of
         Nominal_ProtocolDecl protocol \<Rightarrow>
           protocol = getDistributedActorDecl C \<or> inheritsFrom C protocol (getDistributedActorDecl C)
       | Nominal_ClassDecl classDecl \<Rightarrow> isExplicitDistributedActor classDecl
       | Nominal_StructDecl d \<Rightarrow> False
       | Nominal_EnumDecl d \<Rightarrow> False), s)
   \<and> IsDistributedActorRequest_evaluate C nominal s = isDistributedActor C nominal s"
  by (cases nominal) (simp_all add: isDistributedActor_def)

theorem isDistributedActor_classification_witness:
  "isDistributedActor exampleContext (Nominal_ProtocolDecl 10) exampleState = (True, exampleState)
   \<and> isDistributedActor exampleContext (Nominal_ProtocolDecl 1) exampleState = (True, exampleState)
   \<and> isDistributedActor exampleContext (Nominal_ProtocolDecl 2) exampleState = (False, exampleState)
   \<and> isDistributedActor exampleContext (Nominal_ClassDecl (exampleClass True [])) exampleState =
       (True, exampleState)
   \<and> isDistributedActor exampleContext (Nominal_ClassDecl (exampleClass False [])) exampleState =
       (False, exampleState)
   \<and> isDistributedActor exampleContext (Nominal_StructDecl \<lparr>Addr = 70\<rparr>) exampleState =
       (False, exampleState)"
proof -
  note classify = isDistributedActor_classification [THEN conjunct1]
  have "isDistributedActor exampleContext (Nominal_ProtocolDecl 10) exampleState = (True, exampleState)"
    and "isDistributedActor exampleContext (Nominal_ProtocolDecl 1) exampleState = (True, exampleState)"
    and "isDistributedActor exampleContext (Nominal_ProtocolDecl 2) exampleState = (False, exampleState)"
    by (simp_all add: classify exampleContext_def)
  moreover
  have "isDistributedActor exampleContext (Nominal_ClassDecl (exampleClass True [])) exampleState =
          (True, exampleState)"
    and "isDistributedActor exampleContext (Nominal_ClassDecl (exampleClass False [])) exampleState =
          (False, exampleState)"
    and "isDistributedActor exampleContext (Nominal_StructDecl \<lparr>Addr = 70\<rparr>) exampleState =
          (False, exampleState)"
    by (simp_all add: classify exampleClass_def)
  ultimately show ?thesis
    by blast
qed

subsection \<open>Constructors\<close>

text \<open>
  Claim C1. For every call \<open>checkDistributedActorConstructor C decl ctor\<close>: when the owner is
  classified as a distributed actor and the constructor is a designated initializer, the
  outcome is a function of the number of parameters whose contextual type is the declared
  interface type of the transport protocol or conforms to that protocol. Count 0 emits the
  missing-transport-parameter diagnostic, count 1 emits nothing, a count of 2 or more emits
  the must-have-exactly-one-transport-parameter diagnostic carrying the count. When the owner
  is not a distributed actor or the constructor is not designated, the call changes nothing.
\<close>

theorem constructor_transport_count_partition:
  "checkDistributedActorConstructor C decl ctor s =
     (if fst (isDistributedActor C (Nominal_ClassDecl decl) s) \<and> isDesignatedInit ctor
      then (if transportParameterCount C ctor = 0
            then diagnose (Addr ctor) distributed_actor_designated_ctor_missing_transport_param
                   [ArgDeclName (getName ctor)] s
            else if transportParameterCount C ctor = 1 then s
            else diagnose (Addr ctor) distributed_actor_designated_ctor_must_have_one_transport_param
                   [ArgDeclName (getName ctor), ArgInt (transportParameterCount C ctor)] s)
      else s)"
  by (simp add: checkDistributedActorConstructor_eq isDistributedActor_class)

theorem constructor_transport_count_partition_witness:
  "Diags (checkDistributedActorConstructor exampleContext (exampleClass True [])
     (exampleCtor 60 [exampleParam 61 ''name'' ''String'',
        exampleParam 62 ''transport'' ''FakeTransport'',
        exampleParam 63 ''other'' ''ActorTransport''] True) exampleState) =
     [\<lparr>Loc = 60, ID = distributed_actor_designated_ctor_must_have_one_transport_param,
       Args = [ArgDeclName ''init'', ArgInt 2]\<rparr>]
   \<and> Diags (checkDistributedActorConstructor exampleContext (exampleClass True [])
     (exampleCtor 60 [exampleParam 61 ''name'' ''String''] True) exampleState) =
     [\<lparr>Loc = 60, ID = distributed_actor_designated_ctor_missing_transport_param,
       Args = [ArgDeclName ''init'']\<rparr>]
   \<and> checkDistributedActorConstructor exampleContext (exampleClass True [])
     (exampleCtor 60 [exampleParam 61 ''name'' ''String'',
        exampleParam 62 ''transport'' ''FakeTransport''] True) exampleState = exampleState
   \<and> checkDistributedActorConstructor exampleContext (exampleClass True [])
     (exampleCtor 60 [exampleParam 61 ''name'' ''String''] False) exampleState = exampleState"
  using constructor_transport_count_partition [of exampleContext "exampleClass True []"
     "exampleCtor 60 [exampleParam 61 ''name'' ''String'',
        exampleParam 62 ''transport'' ''FakeTransport'',
        exampleParam 63 ''other'' ''ActorTransport''] True" exampleState]
    constructor_transport_count_partition [of exampleContext "exampleClass True []"
     "exampleCtor 60 [exampleParam 61 ''name'' ''String''] True" exampleState]
    constructor_transport_count_partition [of exampleContext "exampleClass True []"
     "exampleCtor 60 [exampleParam 61 ''name'' ''String'',
        exampleParam 62 ''transport'' ''FakeTransport''] True" exampleState]
    constructor_transport_count_partition [of exampleContext "exampleClass True []"
     "exampleCtor 60 [exampleParam 61 ''name'' ''String''] False" exampleState]
  by (simp add: isDistributedActor_class exampleContext_def exampleState_def exampleParam_def
        exampleCtor_def exampleClass_def transportParameterCount_def isTransportParameter_def
        diagnose_def)

subsection \<open>Properties\<close>

text \<open>
  Claim C7. For every class declaration, \<open>checkDistributedActorProperties\<close> scans the whole
  member list and emits exactly one reserved-property diagnostic for each property member
  whose identifier is one of the two reserved identifiers, in member order; it emits nothing
  when no member uses a reserved identifier, and members that are not properties never cause
  a diagnostic (removing them changes nothing).
\<close>

theorem properties_reserved_identifiers:
  "checkDistributedActorProperties C decl s =
     s\<lparr>Diags := Diags s @
          map reservedPropertyDiagnostic (reservedProperties C (getMembers decl))\<rparr>
   \<and> length (emitted s (checkDistributedActorProperties C decl s)) =
       length (reservedProperties C (getMembers decl))
   \<and> (reservedProperties C (getMembers decl) = [] \<longrightarrow>
        checkDistributedActorProperties C decl s = s)
   \<and> checkDistributedActorProperties C
        (decl\<lparr>getMembers := filter isPropertyMember (getMembers decl)\<rparr>) s =
      checkDistributedActorProperties C decl s"
  by (simp add: checkDistributedActorProperties_def properties_loop_eq emitted_def
        reservedProperties_filter)

theorem properties_reserved_identifiers_witness:
  "emitted exampleState
     (checkDistributedActorProperties exampleContext (exampleClass True exampleMembers) exampleState) =
   [\<lparr>Loc = 51, ID = distributed_actor_user_defined_special_property, Args = [ArgIdentifier ''id'']\<rparr>,
    \<lparr>Loc = 53, ID = distributed_actor_user_defined_special_property,
     Args = [ArgIdentifier ''actorTransport'']\<rparr>]
   \<and> reservedProperties exampleContext
       (getMembers (exampleClass True [Member_VarDecl \<lparr>Addr = 52, getVarName = ''name''\<rparr>])) = []
   \<and> checkDistributedActorProperties exampleContext
       (exampleClass True [Member_VarDecl \<lparr>Addr = 52, getVarName = ''name''\<rparr>]) exampleState =
     exampleState"
  using properties_reserved_identifiers
      [of exampleContext "exampleClass True exampleMembers" exampleState]
    properties_reserved_identifiers
      [of exampleContext "exampleClass True [Member_VarDecl \<lparr>Addr = 52, getVarName = ''name''\<rparr>]"
          exampleState]
  by (simp add: exampleContext_def exampleState_def exampleParam_def exampleFunc_def exampleCtor_def
      exampleClass_def exampleMembers_def reservedProperty_def reservedProperties_def
      reservedPropertyDiagnostic_def emitted_def)

text \<open>
  Claim C10. \<open>checkDistributedActorProperties\<close> has no distributed-actor guard: its outcome
  does not depend on the marker of the class, so a class that is not a distributed actor gets
  the reserved-identifier diagnostics all the same, whereas the constructor check does nothing
  for such a class. Restricting the property check to distributed actors is left to the caller.
\<close>

theorem properties_no_actor_guard:
  "checkDistributedActorProperties C (decl\<lparr>isExplicitDistributedActor := marked\<rparr>) s =
     checkDistributedActorProperties C decl s
   \<and> (\<not> fst (isDistributedActor C (Nominal_ClassDecl decl) s) \<longrightarrow>
        checkDistributedActorConstructor C decl ctor s = s \<and>
        emitted s (checkDistributedActorProperties C decl s) =
          map reservedPropertyDiagnostic (reservedProperties C (getMembers decl)))"
  by (simp add: checkDistributedActorProperties_def properties_loop_eq emitted_def
        checkDistributedActorConstructor_def isDistributedActor_class)

theorem properties_no_actor_guard_witness:
  "\<not> fst (isDistributedActor exampleContext
            (Nominal_ClassDecl (exampleClass False exampleMembers)) exampleState)
   \<and> checkDistributedActorConstructor exampleContext (exampleClass False exampleMembers)
       (exampleCtor 60 [exampleParam 61 ''name'' ''String''] True) exampleState = exampleState
   \<and> emitted exampleState
       (checkDistributedActorProperties exampleContext (exampleClass False exampleMembers)
          exampleState) =
     [\<lparr>Loc = 51, ID = distributed_actor_user_defined_special_property, Args = [ArgIdentifier ''id'']\<rparr>,
      \<lparr>Loc = 53, ID = distributed_actor_user_defined_special_property,
       Args = [ArgIdentifier ''actorTransport'']\<rparr>]"
proof -
  have n: "\<not> fst (isDistributedActor exampleContext
            (Nominal_ClassDecl (exampleClass False exampleMembers)) exampleState)"
    by (simp add: isDistributedActor_def exampleClass_def)
  have r: "map reservedPropertyDiagnostic
             (reservedProperties exampleContext (getMembers (exampleClass False exampleMembers))) =
           [\<lparr>Loc = 51, ID = distributed_actor_user_defined_special_property,
             Args = [ArgIdentifier ''id'']\<rparr>,
            \<lparr>Loc = 53, ID = distributed_actor_user_defined_special_property,
             Args = [ArgIdentifier ''actorTransport'']\<rparr>]"
    by (simp add: exampleContext_def exampleState_def exampleParam_def exampleFunc_def
          exampleCtor_def exampleClass_def exampleMembers_def reservedProperty_def
          reservedProperties_def reservedPropertyDiagnostic_def)
  show ?thesis
    using properties_no_actor_guard
        [where C = exampleContext and decl = "exampleClass False exampleMembers"
           and marked = False and s = exampleState
           and ctor = "exampleCtor 60 [exampleParam 61 ''name'' ''String''] True"] n
    unfolding r by blast
qed

subsection \<open>Distributed functions\<close>

text \<open>One step of the parameter loop, on the Codable contract of the parameter.\<close>

lemma checkParameters_Cons:
  "checkParameters C func d (p # rest) s =
     (if parameterIsCodable C func p then checkParameters C func d rest s
      else Some (if d then diagnose (Addr func) distributed_actor_func_param_not_codable
                            [ArgString (getArgumentName p), ArgType (getInterfaceType p)] s
                 else s))"
  by (auto simp add: parameterIsCodable_def typeIsCodable_def isInvalid_iff Let_def)

lemma checkParameters_None_iff:
  "checkParameters C func d params s = None \<longleftrightarrow> list_all (parameterIsCodable C func) params"
  by (induction params) (simp_all add: checkParameters_Cons del: checkParameters.simps(2))

lemma checkParameters_codable:
  "list_all (parameterIsCodable C func) params \<Longrightarrow> checkParameters C func d params s = None"
  by (simp add: checkParameters_None_iff)

lemma checkParameters_first:
  "list_all (parameterIsCodable C func) pre \<Longrightarrow> parameterNotCodable C func p \<Longrightarrow>
   checkParameters C func d (pre @ p # post) s =
     Some (if d then diagnose (Addr func) distributed_actor_func_param_not_codable
                       [ArgString (getArgumentName p), ArgType (getInterfaceType p)] s
           else s)"
  by (induction pre)
     (simp_all add: checkParameters_Cons parameterNotCodable_def del: checkParameters.simps(2))

lemma first_offender_split:
  "filter (parameterNotCodable C func) params \<noteq> [] \<Longrightarrow>
   \<exists>post. params = takeWhile (parameterIsCodable C func) params @
            hd (filter (parameterNotCodable C func) params) # post"
  by (induction params) (auto simp add: parameterNotCodable_def)

lemma takeWhile_codable: "list_all P (takeWhile P xs)"
  by (induction xs) simp_all

lemma result_check_iff:
  "(isInvalid (conformsToProtocol C ty (getProtocol C Decodable) (getParentModule func)) \<or>
    isInvalid (conformsToProtocol C ty (getProtocol C Encodable) (getParentModule func))) \<longleftrightarrow>
   \<not> typeIsCodable C func ty"
  by (auto simp add: typeIsCodable_def isInvalid_iff)

text \<open>What the function does once the parameter loop has run to its end.\<close>

lemma checkDistributedFunction_after_parameters:
  assumes "list_all (parameterIsCodable C func) (getParameters func)"
  shows "checkDistributedFunction C func d s =
     (if \<not> resultIsAcceptable C func
      then (Inr True,
            if d then diagnose (Addr func) distributed_actor_func_result_not_codable
                        [ArgType (getResultInterfaceType func)] s
            else s)
      else
        (case dyn_cast_ClassDecl (getParent C (Addr func)) of
           None \<Rightarrow> (Inl AssertionFailed, s)
         | Some actorDecl \<Rightarrow>
             if \<not> isExplicitDistributedActor actorDecl then (Inl AssertionFailed, s)
             else
               (case lookupDirectRemoteFunc C actorDecl func of
                  None \<Rightarrow> (Inr False, s)
                | Some remoteFuncDecl \<Rightarrow>
                    if isSynthesized remoteFuncDecl then (Inr False, s)
                    else (Inr True,
                          if d then diagnose (Addr func)
                                   distributed_actor_remote_func_implemented_manually
                                   [ArgIdentifier (getBaseIdentifier func),
                                    ArgIdentifier (''_remote_'' @ getBaseIdentifier func)] s
                          else s))))"
  unfolding checkDistributedFunction_def Let_def
    checkParameters_codable [OF assms] resultIsAcceptable_def
  by (simp add: result_check_iff isDistributedActor_class split: option.splits bool.splits)

lemma assertion_fails_iff:
  "fst (checkDistributedFunction C func d s) = Inl AssertionFailed \<longleftrightarrow>
     list_all (parameterIsCodable C func) (getParameters func) \<and>
     resultIsAcceptable C func \<and> \<not> enclosedByDistributedActorClass C func s"
proof (cases "list_all (parameterIsCodable C func) (getParameters func)")
  case True
  show ?thesis
    by (simp add: checkDistributedFunction_after_parameters [OF True] True
          enclosedByDistributedActorClass_def isDistributedActor_class split: option.splits)
next
  case False
  then obtain s' where "checkParameters C func d (getParameters func) s = Some s'"
    using checkParameters_None_iff [of C func d "getParameters func" s] by auto
  then show ?thesis
    using False by (simp add: checkDistributedFunction_def)
qed

lemma checkParameters_attr:
  "checkParameters C (func\<lparr>hasDistributedActorAttr := attr\<rparr>) d params s =
     checkParameters C func d params s"
  by (induction params) (simp_all add: Let_def)

lemma checkDistributedFunction_attr:
  assumes "\<forall>actorDecl. lookupDirectRemoteFunc C actorDecl (func\<lparr>hasDistributedActorAttr := attr\<rparr>) =
             lookupDirectRemoteFunc C actorDecl func"
  shows "checkDistributedFunction C (func\<lparr>hasDistributedActorAttr := attr\<rparr>) d s =
           checkDistributedFunction C func d s"
proof (cases "checkParameters C func d (getParameters func) s")
  case None
  have same: "\<And>actorDecl. lookupDirectRemoteFunc C actorDecl (func\<lparr>hasDistributedActorAttr := attr\<rparr>) =
             lookupDirectRemoteFunc C actorDecl func"
    using assms by simp
  show ?thesis
    by (simp add: checkDistributedFunction_def checkParameters_attr None Let_def same
          cong: option.case_cong bool.case_cong if_cong)
next
  case (Some s')
  then show ?thesis
    by (simp add: checkDistributedFunction_def checkParameters_attr)
qed

text \<open>
  Claim C3. For every function with two or more parameters that fail the Codable requirement,
  \<open>checkDistributedFunction\<close> with \<open>diagnose = true\<close> emits exactly one diagnostic, for the
  first offending parameter in declaration order, and returns true. The parameters after that
  one, the result type and the remote counterpart are not looked at: replacing them changes
  nothing.
\<close>

theorem function_first_offending_parameter:
  assumes "2 \<le> length (filter (parameterNotCodable C func) (getParameters func))"
  shows "checkDistributedFunction C func True s =
           (Inr True,
            diagnose (Addr func) distributed_actor_func_param_not_codable
              [ArgString (getArgumentName (hd (filter (parameterNotCodable C func) (getParameters func)))),
               ArgType (getInterfaceType (hd (filter (parameterNotCodable C func) (getParameters func))))] s)
         \<and> length (emitted s (snd (checkDistributedFunction C func True s))) = 1
         \<and> checkDistributedFunction (C\<lparr>getParent := parent', lookupDirectRemoteFunc := lookup'\<rparr>)
             (func\<lparr>getParameters :=
                      takeWhile (parameterIsCodable C func) (getParameters func) @
                      hd (filter (parameterNotCodable C func) (getParameters func)) # rest',
                    getResultInterfaceType := result'\<rparr>) True s =
           checkDistributedFunction C func True s"
proof -
  let ?p = "hd (filter (parameterNotCodable C func) (getParameters func))"
  let ?pre = "takeWhile (parameterIsCodable C func) (getParameters func)"
  let ?C' = "C\<lparr>getParent := parent', lookupDirectRemoteFunc := lookup'\<rparr>"
  let ?func' = "func\<lparr>getParameters := ?pre @ ?p # rest', getResultInterfaceType := result'\<rparr>"
  from assms have ne: "filter (parameterNotCodable C func) (getParameters func) \<noteq> []"
    by auto
  then obtain post where split: "getParameters func = ?pre @ ?p # post"
    using first_offender_split by blast
  have bad: "parameterNotCodable C func ?p"
    using ne hd_in_set [OF ne] by simp
  have pre: "list_all (parameterIsCodable C func) ?pre"
    by (rule takeWhile_codable)
  have "checkParameters C func True (?pre @ ?p # post) s =
          Some (diagnose (Addr func) distributed_actor_func_param_not_codable
                  [ArgString (getArgumentName ?p), ArgType (getInterfaceType ?p)] s)"
    using checkParameters_first [OF pre bad] by simp
  then have loop: "checkParameters C func True (getParameters func) s =
          Some (diagnose (Addr func) distributed_actor_func_param_not_codable
                  [ArgString (getArgumentName ?p), ArgType (getInterfaceType ?p)] s)"
    using split by simp
  have one: "checkDistributedFunction C func True s =
           (Inr True, diagnose (Addr func) distributed_actor_func_param_not_codable
              [ArgString (getArgumentName ?p), ArgType (getInterfaceType ?p)] s)"
    by (simp add: checkDistributedFunction_def loop)
  have same_codable: "parameterIsCodable ?C' ?func' = parameterIsCodable C func"
    by (rule ext) (simp add: parameterIsCodable_def typeIsCodable_def)
  have bad': "parameterNotCodable ?C' ?func' ?p"
    using bad by (simp add: parameterNotCodable_def same_codable)
  have pre': "list_all (parameterIsCodable ?C' ?func') ?pre"
    using pre by (simp add: same_codable)
  have "checkParameters ?C' ?func' True (?pre @ ?p # rest') s =
          Some (diagnose (Addr func) distributed_actor_func_param_not_codable
                  [ArgString (getArgumentName ?p), ArgType (getInterfaceType ?p)] s)"
    using checkParameters_first [OF pre' bad', of True rest' s] by simp
  then have two: "checkDistributedFunction ?C' ?func' True s =
           (Inr True, diagnose (Addr func) distributed_actor_func_param_not_codable
              [ArgString (getArgumentName ?p), ArgType (getInterfaceType ?p)] s)"
    by (simp add: checkDistributedFunction_def)
  show ?thesis
    by (simp add: one two emitted_def diagnose_Diags)
qed

theorem function_first_offending_parameter_witness:
  "2 \<le> length (filter (parameterNotCodable exampleContext
            (exampleFunc 102 [exampleParam 1 ''count'' ''Int'', exampleParam 2 ''first'' ''Socket'',
               exampleParam 3 ''second'' ''Pipe''] ''String''))
          (getParameters (exampleFunc 102 [exampleParam 1 ''count'' ''Int'',
               exampleParam 2 ''first'' ''Socket'', exampleParam 3 ''second'' ''Pipe''] ''String'')))
   \<and> fst (checkDistributedFunction exampleContext
         (exampleFunc 102 [exampleParam 1 ''count'' ''Int'', exampleParam 2 ''first'' ''Socket'',
            exampleParam 3 ''second'' ''Pipe''] ''String'') True exampleState) = Inr True
   \<and> Diags (snd (checkDistributedFunction exampleContext
         (exampleFunc 102 [exampleParam 1 ''count'' ''Int'', exampleParam 2 ''first'' ''Socket'',
            exampleParam 3 ''second'' ''Pipe''] ''String'') True exampleState)) =
       [\<lparr>Loc = 102, ID = distributed_actor_func_param_not_codable,
         Args = [ArgString ''first'', ArgType ''Socket'']\<rparr>]"
proof -
  let ?f = "exampleFunc 102 [exampleParam 1 ''count'' ''Int'', exampleParam 2 ''first'' ''Socket'',
               exampleParam 3 ''second'' ''Pipe''] ''String''"
  have h: "2 \<le> length (filter (parameterNotCodable exampleContext ?f) (getParameters ?f))"
    by (simp add: exampleContext_def exampleState_def exampleParam_def exampleFunc_def
          typeIsCodable_def parameterIsCodable_def parameterNotCodable_def)
  have p: "hd (filter (parameterNotCodable exampleContext ?f) (getParameters ?f)) =
             exampleParam 2 ''first'' ''Socket''"
    by (simp add: exampleContext_def exampleState_def exampleParam_def exampleFunc_def
          typeIsCodable_def parameterIsCodable_def parameterNotCodable_def)
  from function_first_offending_parameter [OF h, of exampleState]
  have "checkDistributedFunction exampleContext ?f True exampleState =
          (Inr True, diagnose (Addr ?f) distributed_actor_func_param_not_codable
             [ArgString (getArgumentName (exampleParam 2 ''first'' ''Socket'')),
              ArgType (getInterfaceType (exampleParam 2 ''first'' ''Socket''))] exampleState)"
    unfolding p by blast
  then show ?thesis
    using h by (simp add: exampleContext_def exampleState_def exampleParam_def exampleFunc_def
          diagnose_def)
qed

text \<open>
  Claim C2. For every function whose parameters all pass the Codable checks: when the
  contextual result type is the void type, no conformance of the result type is consulted
  (the outcome is the same under any other conformance relation that lets the parameters
  pass), no result diagnostic is emitted, and a report of a problem can only come from a
  hand-written remote counterpart; when it is not void and fails conformance to the decoding
  or the encoding protocol, the function returns true and emits, only when \<open>diagnose\<close> is
  true, one diagnostic that cites the declared result type.
\<close>

theorem function_result_type_check:
  assumes "list_all (parameterIsCodable C func) (getParameters func)"
  shows "(isVoid C (mapTypeIntoContext func (getResultInterfaceType func)) \<longrightarrow>
            (list_all (parameterIsCodable (C\<lparr>conformsToProtocol := conformance'\<rparr>) func)
               (getParameters func) \<longrightarrow>
             checkDistributedFunction (C\<lparr>conformsToProtocol := conformance'\<rparr>) func d s =
             checkDistributedFunction C func d s)
          \<and> (\<forall>dg \<in> set (emitted s (snd (checkDistributedFunction C func d s))).
                ID dg \<noteq> distributed_actor_func_result_not_codable)
          \<and> (fst (checkDistributedFunction C func d s) = Inr True \<longrightarrow>
               (\<exists>actorDecl remoteFuncDecl.
                  dyn_cast_ClassDecl (getParent C (Addr func)) = Some actorDecl \<and>
                  lookupDirectRemoteFunc C actorDecl func = Some remoteFuncDecl \<and>
                  \<not> isSynthesized remoteFuncDecl)))
       \<and> (\<not> isVoid C (mapTypeIntoContext func (getResultInterfaceType func)) \<and>
          \<not> typeIsCodable C func (mapTypeIntoContext func (getResultInterfaceType func)) \<longrightarrow>
            checkDistributedFunction C func d s =
              (Inr True,
               if d then diagnose (Addr func) distributed_actor_func_result_not_codable
                           [ArgType (getResultInterfaceType func)] s
               else s))"
proof (intro conjI impI)
  assume void: "isVoid C (mapTypeIntoContext func (getResultInterfaceType func))"
  assume "list_all (parameterIsCodable (C\<lparr>conformsToProtocol := conformance'\<rparr>) func)
            (getParameters func)"
  from checkDistributedFunction_after_parameters [OF this]
       checkDistributedFunction_after_parameters [OF assms] void
  show "checkDistributedFunction (C\<lparr>conformsToProtocol := conformance'\<rparr>) func d s =
        checkDistributedFunction C func d s"
    by (simp add: resultIsAcceptable_def split: option.splits)
next
  assume void: "isVoid C (mapTypeIntoContext func (getResultInterfaceType func))"
  then show "\<forall>dg \<in> set (emitted s (snd (checkDistributedFunction C func d s))).
                ID dg \<noteq> distributed_actor_func_result_not_codable"
    by (simp add: checkDistributedFunction_after_parameters [OF assms] resultIsAcceptable_def
          emitted_same emitted_diagnose split: option.splits)
next
  assume void: "isVoid C (mapTypeIntoContext func (getResultInterfaceType func))"
  assume "fst (checkDistributedFunction C func d s) = Inr True"
  with void show "\<exists>actorDecl remoteFuncDecl.
                  dyn_cast_ClassDecl (getParent C (Addr func)) = Some actorDecl \<and>
                  lookupDirectRemoteFunc C actorDecl func = Some remoteFuncDecl \<and>
                  \<not> isSynthesized remoteFuncDecl"
    by (simp add: checkDistributedFunction_after_parameters [OF assms] resultIsAcceptable_def
          split: option.splits if_splits)
next
  assume "\<not> isVoid C (mapTypeIntoContext func (getResultInterfaceType func)) \<and>
          \<not> typeIsCodable C func (mapTypeIntoContext func (getResultInterfaceType func))"
  then show "checkDistributedFunction C func d s =
              (Inr True,
               if d then diagnose (Addr func) distributed_actor_func_result_not_codable
                           [ArgType (getResultInterfaceType func)] s
               else s)"
    by (simp add: checkDistributedFunction_after_parameters [OF assms] resultIsAcceptable_def)
qed

theorem function_result_type_check_witness:
  "list_all (parameterIsCodable exampleContext
       (exampleFunc 100 [exampleParam 1 ''name'' ''String''] ''Socket''))
     (getParameters (exampleFunc 100 [exampleParam 1 ''name'' ''String''] ''Socket''))
   \<and> \<not> isVoid exampleContext ''Socket''
   \<and> \<not> typeIsCodable exampleContext
         (exampleFunc 100 [exampleParam 1 ''name'' ''String''] ''Socket'') ''Socket''
   \<and> fst (checkDistributedFunction exampleContext
         (exampleFunc 100 [exampleParam 1 ''name'' ''String''] ''Socket'') True exampleState) = Inr True
   \<and> Diags (snd (checkDistributedFunction exampleContext
         (exampleFunc 100 [exampleParam 1 ''name'' ''String''] ''Socket'') True exampleState)) =
       [\<lparr>Loc = 100, ID = distributed_actor_func_result_not_codable, Args = [ArgType ''Socket'']\<rparr>]
   \<and> list_all (parameterIsCodable exampleContext
       (exampleFunc 100 [exampleParam 1 ''name'' ''String''] ''()''))
     (getParameters (exampleFunc 100 [exampleParam 1 ''name'' ''String''] ''()''))
   \<and> isVoid exampleContext ''()''
   \<and> list_all (\<lambda>dg. ID dg \<noteq> distributed_actor_func_result_not_codable)
       (emitted exampleState (snd (checkDistributedFunction exampleContext
          (exampleFunc 100 [exampleParam 1 ''name'' ''String''] ''()'') True exampleState)))"
proof -
  let ?f = "exampleFunc 100 [exampleParam 1 ''name'' ''String''] ''Socket''"
  let ?g = "exampleFunc 100 [exampleParam 1 ''name'' ''String''] ''()''"
  have h: "list_all (parameterIsCodable exampleContext ?f) (getParameters ?f)"
    and k: "list_all (parameterIsCodable exampleContext ?g) (getParameters ?g)"
    by (simp_all add: exampleContext_def exampleState_def exampleParam_def exampleFunc_def
          typeIsCodable_def parameterIsCodable_def)
  have n: "\<not> isVoid exampleContext (mapTypeIntoContext ?f (getResultInterfaceType ?f)) \<and>
           \<not> typeIsCodable exampleContext ?f (mapTypeIntoContext ?f (getResultInterfaceType ?f))"
    by (simp add: exampleContext_def exampleState_def exampleParam_def exampleFunc_def
          typeIsCodable_def parameterIsCodable_def)
  have v: "isVoid exampleContext (mapTypeIntoContext ?g (getResultInterfaceType ?g))"
    by (simp add: exampleContext_def exampleState_def exampleParam_def exampleFunc_def)
  from function_result_type_check [OF h, of _ True exampleState] n
  have "checkDistributedFunction exampleContext ?f True exampleState =
          (Inr True, diagnose (Addr ?f) distributed_actor_func_result_not_codable
                       [ArgType (getResultInterfaceType ?f)] exampleState)"
    by simp
  then have 1: "fst (checkDistributedFunction exampleContext ?f True exampleState) = Inr True"
    and 2: "Diags (snd (checkDistributedFunction exampleContext ?f True exampleState)) =
       [\<lparr>Loc = 100, ID = distributed_actor_func_result_not_codable, Args = [ArgType ''Socket'']\<rparr>]"
    by (simp_all add: exampleContext_def exampleState_def exampleParam_def exampleFunc_def
          diagnose_def)
  from function_result_type_check [OF k, of _ True exampleState] v
  have 3: "list_all (\<lambda>dg. ID dg \<noteq> distributed_actor_func_result_not_codable)
             (emitted exampleState
               (snd (checkDistributedFunction exampleContext ?g True exampleState)))"
    unfolding list_all_iff by blast
  have 4: "\<not> isVoid exampleContext ''Socket'' \<and> \<not> typeIsCodable exampleContext ?f ''Socket''"
    and 5: "isVoid exampleContext ''()''"
    by (simp_all add: exampleContext_def exampleState_def exampleParam_def exampleFunc_def
          typeIsCodable_def parameterIsCodable_def)
  show ?thesis
    using h k 1 2 3 4 5 by blast
qed

text \<open>
  Claim C4, as amended. For every function whose parameters and result pass the Codable
  checks and whose enclosing declaration is a class classified as a distributed actor (the
  precondition of the function): when
  the class declares a remote counterpart for the function that is not flagged as synthesized,
  the function returns true and, when \<open>diagnose\<close> is true, emits a diagnostic that names the
  base identifier and the expected synthesized identifier, the base name prefixed with
  \<open>_remote_\<close>; when no counterpart exists or it is synthesized, the function returns false
  and emits nothing.
\<close>

theorem function_remote_counterpart:
  assumes "list_all (parameterIsCodable C func) (getParameters func)"
    and "resultIsAcceptable C func"
    and "dyn_cast_ClassDecl (getParent C (Addr func)) = Some actorDecl"
    and "fst (isDistributedActor C (Nominal_ClassDecl actorDecl) s)"
  shows "checkDistributedFunction C func d s =
           (case lookupDirectRemoteFunc C actorDecl func of
              None \<Rightarrow> (Inr False, s)
            | Some remoteFuncDecl \<Rightarrow>
                if isSynthesized remoteFuncDecl then (Inr False, s)
                else (Inr True,
                      if d then diagnose (Addr func)
                                  distributed_actor_remote_func_implemented_manually
                                  [ArgIdentifier (getBaseIdentifier func),
                                   ArgIdentifier (''_remote_'' @ getBaseIdentifier func)] s
                      else s))"
  using assms(2-4)
  by (simp add: checkDistributedFunction_after_parameters [OF assms(1)] isDistributedActor_class)

theorem function_remote_counterpart_witness:
  "list_all (parameterIsCodable exampleContext (exampleFunc 101 [exampleParam 1 ''name'' ''String''] ''String''))
     (getParameters (exampleFunc 101 [exampleParam 1 ''name'' ''String''] ''String''))
   \<and> resultIsAcceptable exampleContext (exampleFunc 101 [exampleParam 1 ''name'' ''String''] ''String'')
   \<and> dyn_cast_ClassDecl (getParent exampleContext
         (Addr (exampleFunc 101 [exampleParam 1 ''name'' ''String''] ''String''))) =
       Some (exampleClass True [])
   \<and> fst (isDistributedActor exampleContext (Nominal_ClassDecl (exampleClass True [])) exampleState)
   \<and> fst (checkDistributedFunction exampleContext
         (exampleFunc 101 [exampleParam 1 ''name'' ''String''] ''String'') True exampleState) = Inr True
   \<and> Diags (snd (checkDistributedFunction exampleContext
         (exampleFunc 101 [exampleParam 1 ''name'' ''String''] ''String'') True exampleState)) =
       [\<lparr>Loc = 101, ID = distributed_actor_remote_func_implemented_manually,
         Args = [ArgIdentifier ''greet'', ArgIdentifier ''_remote_greet'']\<rparr>]
   \<and> checkDistributedFunction exampleContext
         (exampleFunc 100 [exampleParam 1 ''name'' ''String''] ''String'') True exampleState =
       (Inr False, exampleState)"
proof -
  let ?f = "exampleFunc 101 [exampleParam 1 ''name'' ''String''] ''String''"
  let ?g = "exampleFunc 100 [exampleParam 1 ''name'' ''String''] ''String''"
  have h1: "list_all (parameterIsCodable exampleContext ?f) (getParameters ?f)"
    and g1: "list_all (parameterIsCodable exampleContext ?g) (getParameters ?g)"
    by (simp_all add: exampleContext_def exampleState_def exampleParam_def exampleFunc_def
      exampleClass_def typeIsCodable_def parameterIsCodable_def resultIsAcceptable_def)
  have h2: "resultIsAcceptable exampleContext ?f" and g2: "resultIsAcceptable exampleContext ?g"
    by (simp_all add: exampleContext_def exampleState_def exampleParam_def exampleFunc_def
      exampleClass_def typeIsCodable_def parameterIsCodable_def resultIsAcceptable_def)
  have h3: "dyn_cast_ClassDecl (getParent exampleContext (Addr ?f)) = Some (exampleClass True [])"
    and g3: "dyn_cast_ClassDecl (getParent exampleContext (Addr ?g)) = Some (exampleClass True [])"
    by (simp_all add: exampleContext_def exampleState_def exampleParam_def exampleFunc_def
      exampleClass_def)
  have h4: "fst (isDistributedActor exampleContext (Nominal_ClassDecl (exampleClass True [])) exampleState)"
    by (simp add: isDistributedActor_def exampleContext_def exampleState_def exampleParam_def
          exampleFunc_def exampleClass_def)
  show ?thesis
    using function_remote_counterpart [OF h1 h2 h3 h4, of True]
      function_remote_counterpart [OF g1 g2 g3 h4, of True] h1 h2 h3 h4
    by (simp add: exampleContext_def exampleState_def exampleParam_def exampleFunc_def
      exampleClass_def diagnose_def)
qed

text \<open>
  The claim as first stated, for every function whose parameters and result pass, does not
  hold: in a class without the distributed-actor marker that declares no remote counterpart,
  the function does not return false; the assertion on the enclosing declaration fails.
\<close>

theorem function_remote_counterpart_counterexample:
  "list_all (parameterIsCodable exampleContextUnmarkedClass
       (exampleFunc 100 [exampleParam 1 ''name'' ''String''] ''String''))
     (getParameters (exampleFunc 100 [exampleParam 1 ''name'' ''String''] ''String''))
   \<and> resultIsAcceptable exampleContextUnmarkedClass
         (exampleFunc 100 [exampleParam 1 ''name'' ''String''] ''String'')
   \<and> dyn_cast_ClassDecl (getParent exampleContextUnmarkedClass
         (Addr (exampleFunc 100 [exampleParam 1 ''name'' ''String''] ''String''))) =
       Some (exampleClass False [])
   \<and> lookupDirectRemoteFunc exampleContextUnmarkedClass (exampleClass False [])
         (exampleFunc 100 [exampleParam 1 ''name'' ''String''] ''String'') = None
   \<and> checkDistributedFunction exampleContextUnmarkedClass
         (exampleFunc 100 [exampleParam 1 ''name'' ''String''] ''String'') True exampleState =
       (Inl AssertionFailed, exampleState)
   \<and> checkDistributedFunction exampleContextUnmarkedClass
         (exampleFunc 100 [exampleParam 1 ''name'' ''String''] ''String'') False exampleState =
       (Inl AssertionFailed, exampleState)"
  by (simp add: checkDistributedFunction_def isDistributedActor_def
        exampleContextUnmarkedClass_def exampleContext_def exampleParam_def exampleFunc_def
        exampleClass_def typeIsCodable_def parameterIsCodable_def resultIsAcceptable_def)

text \<open>
  Claim C8. For every function declaration, the run with \<open>diagnose = false\<close> and the run with
  \<open>diagnose = true\<close> give the same outcome. The flag decides only whether diagnostics are
  emitted: without it the state is unchanged, with it the state differs from the initial one
  in its diagnostics at most.
\<close>

theorem function_diagnose_flag:
  "fst (checkDistributedFunction C func False s) = fst (checkDistributedFunction C func True s)
   \<and> snd (checkDistributedFunction C func False s) = s
   \<and> (snd (checkDistributedFunction C func True s))\<lparr>Diags := Diags s\<rparr> = s"
proof (cases "list_all (parameterIsCodable C func) (getParameters func)")
  case True
  then show ?thesis
    by (simp add: checkDistributedFunction_def checkParameters_codable isDistributedActor_class
          diagnose_def Let_def split: option.splits bool.splits)
next
  case False
  then have ne: "filter (parameterNotCodable C func) (getParameters func) \<noteq> []"
    by (simp add: filter_empty_conv list_all_iff parameterNotCodable_def)
  then obtain post where split: "getParameters func =
      takeWhile (parameterIsCodable C func) (getParameters func) @
      hd (filter (parameterNotCodable C func) (getParameters func)) # post"
    using first_offender_split by blast
  have bad: "parameterNotCodable C func (hd (filter (parameterNotCodable C func) (getParameters func)))"
    using hd_in_set [OF ne] by simp
  have "\<And>d. checkParameters C func d (getParameters func) s =
     Some (if d then diagnose (Addr func) distributed_actor_func_param_not_codable
                       [ArgString (getArgumentName (hd (filter (parameterNotCodable C func) (getParameters func)))),
                        ArgType (getInterfaceType (hd (filter (parameterNotCodable C func) (getParameters func))))] s
           else s)"
    using checkParameters_first [OF takeWhile_codable bad] split by metis
  then show ?thesis
    by (simp add: checkDistributedFunction_def diagnose_def)
qed

theorem function_diagnose_flag_witness:
  "fst (checkDistributedFunction exampleContext
          (exampleFunc 102 [exampleParam 2 ''first'' ''Socket''] ''String'') False exampleState) = Inr True
   \<and> fst (checkDistributedFunction exampleContext
          (exampleFunc 102 [exampleParam 2 ''first'' ''Socket''] ''String'') True exampleState) = Inr True
   \<and> snd (checkDistributedFunction exampleContext
          (exampleFunc 102 [exampleParam 2 ''first'' ''Socket''] ''String'') False exampleState) =
       exampleState"
proof -
  let ?f = "exampleFunc 102 [exampleParam 2 ''first'' ''Socket''] ''String''"
  have "fst (checkDistributedFunction exampleContext ?f True exampleState) = Inr True"
    by (simp add: checkDistributedFunction_def exampleContext_def exampleState_def
          exampleParam_def exampleFunc_def)
  with function_diagnose_flag [of exampleContext ?f exampleState] show ?thesis
    by simp
qed

text \<open>
  Claim C9, as amended. \<open>checkDistributedFunction\<close> does not read the distributed attribute
  of its argument: the outcome can change with the attribute only through the answer of the
  external remote-counterpart lookup. It does not diagnose an enclosing declaration that is
  not a distributed actor class; it asserts that it is one. Under the precondition (the
  enclosing declaration is a class classified as a distributed actor) the assertion holds.
  For a function whose enclosing declaration is not such a class the assertion fails when the
  parameters and the result pass the Codable checks; when one of them fails, the function
  returns true before it reaches the assertion.
\<close>

theorem function_parent_assertion:
  "((\<forall>actorDecl. lookupDirectRemoteFunc C actorDecl (func\<lparr>hasDistributedActorAttr := attr\<rparr>) =
        lookupDirectRemoteFunc C actorDecl func) \<longrightarrow>
      checkDistributedFunction C (func\<lparr>hasDistributedActorAttr := attr\<rparr>) d s =
      checkDistributedFunction C func d s)
   \<and> (enclosedByDistributedActorClass C func s \<longrightarrow>
        fst (checkDistributedFunction C func d s) \<noteq> Inl AssertionFailed)
   \<and> (list_all (parameterIsCodable C func) (getParameters func) \<and> resultIsAcceptable C func \<and>
      \<not> enclosedByDistributedActorClass C func s \<longrightarrow>
        checkDistributedFunction C func d s = (Inl AssertionFailed, s))
   \<and> (\<not> list_all (parameterIsCodable C func) (getParameters func) \<or> \<not> resultIsAcceptable C func \<longrightarrow>
        fst (checkDistributedFunction C func d s) = Inr True)"
proof (intro conjI impI)
  assume "\<forall>actorDecl. lookupDirectRemoteFunc C actorDecl (func\<lparr>hasDistributedActorAttr := attr\<rparr>) =
        lookupDirectRemoteFunc C actorDecl func"
  then show "checkDistributedFunction C (func\<lparr>hasDistributedActorAttr := attr\<rparr>) d s =
     checkDistributedFunction C func d s"
    by (rule checkDistributedFunction_attr)
next
  assume "enclosedByDistributedActorClass C func s"
  then show "fst (checkDistributedFunction C func d s) \<noteq> Inl AssertionFailed"
    by (simp add: assertion_fails_iff)
next
  assume a: "list_all (parameterIsCodable C func) (getParameters func) \<and> resultIsAcceptable C func \<and>
      \<not> enclosedByDistributedActorClass C func s"
  then show "checkDistributedFunction C func d s = (Inl AssertionFailed, s)"
    by (auto simp add: checkDistributedFunction_after_parameters enclosedByDistributedActorClass_def
          isDistributedActor_class split: option.splits)
next
  assume a: "\<not> list_all (parameterIsCodable C func) (getParameters func) \<or> \<not> resultIsAcceptable C func"
  show "fst (checkDistributedFunction C func d s) = Inr True"
  proof (cases "list_all (parameterIsCodable C func) (getParameters func)")
    case True
    with a show ?thesis
      by (simp add: checkDistributedFunction_after_parameters)
  next
    case False
    then obtain s' where "checkParameters C func d (getParameters func) s = Some s'"
      using checkParameters_None_iff [of C func d "getParameters func" s] by auto
    then show ?thesis
      by (simp add: checkDistributedFunction_def)
  qed
qed

theorem function_parent_assertion_witness:
  "enclosedByDistributedActorClass exampleContext
     (exampleFunc 100 [exampleParam 1 ''name'' ''String''] ''String'') exampleState
   \<and> fst (checkDistributedFunction exampleContext
          (exampleFunc 100 [exampleParam 1 ''name'' ''String''] ''String'') True exampleState) \<noteq>
       Inl AssertionFailed
   \<and> list_all (parameterIsCodable exampleContext
         (exampleFunc 102 [exampleParam 1 ''name'' ''String''] ''String''))
       (getParameters (exampleFunc 102 [exampleParam 1 ''name'' ''String''] ''String''))
   \<and> resultIsAcceptable exampleContext (exampleFunc 102 [exampleParam 1 ''name'' ''String''] ''String'')
   \<and> \<not> enclosedByDistributedActorClass exampleContext
         (exampleFunc 102 [exampleParam 1 ''name'' ''String''] ''String'') exampleState
   \<and> checkDistributedFunction exampleContext
         (exampleFunc 102 [exampleParam 1 ''name'' ''String''] ''String'') True exampleState =
       (Inl AssertionFailed, exampleState)
   \<and> \<not> resultIsAcceptable exampleContext (exampleFunc 102 [exampleParam 1 ''name'' ''String''] ''Socket'')
   \<and> fst (checkDistributedFunction exampleContext
         (exampleFunc 102 [exampleParam 1 ''name'' ''String''] ''Socket'') True exampleState) = Inr True
   \<and> checkDistributedFunction exampleContext
         ((exampleFunc 100 [exampleParam 1 ''name'' ''String''] ''String'')
            \<lparr>hasDistributedActorAttr := False\<rparr>) True exampleState =
       checkDistributedFunction exampleContext
         (exampleFunc 100 [exampleParam 1 ''name'' ''String''] ''String'') True exampleState"
proof -
  let ?f = "exampleFunc 100 [exampleParam 1 ''name'' ''String''] ''String''"
  let ?g = "exampleFunc 102 [exampleParam 1 ''name'' ''String''] ''String''"
  let ?h = "exampleFunc 102 [exampleParam 1 ''name'' ''String''] ''Socket''"
  have f: "enclosedByDistributedActorClass exampleContext ?f exampleState"
    by (simp add: exampleContext_def exampleState_def exampleParam_def exampleFunc_def
          typeIsCodable_def parameterIsCodable_def resultIsAcceptable_def
          enclosedByDistributedActorClass_def isDistributedActor_def)
  have g: "list_all (parameterIsCodable exampleContext ?g) (getParameters ?g) \<and>
           resultIsAcceptable exampleContext ?g \<and>
           \<not> enclosedByDistributedActorClass exampleContext ?g exampleState"
    by (simp add: exampleContext_def exampleState_def exampleParam_def exampleFunc_def
          typeIsCodable_def parameterIsCodable_def resultIsAcceptable_def
          enclosedByDistributedActorClass_def)
  have h: "\<not> resultIsAcceptable exampleContext ?h"
    by (simp add: exampleContext_def exampleState_def exampleParam_def exampleFunc_def
          typeIsCodable_def parameterIsCodable_def resultIsAcceptable_def
          enclosedByDistributedActorClass_def)
  have a: "\<forall>actorDecl. lookupDirectRemoteFunc exampleContext actorDecl
               (?f\<lparr>hasDistributedActorAttr := False\<rparr>) =
             lookupDirectRemoteFunc exampleContext actorDecl ?f"
    by (simp add: exampleContext_def exampleState_def exampleParam_def exampleFunc_def)
  show ?thesis
    using function_parent_assertion [where C = exampleContext and func = ?f and attr = False and d = True
                and s = exampleState]
      function_parent_assertion [where C = exampleContext and func = ?g and attr = False and d = True
            and s = exampleState]
      function_parent_assertion [where C = exampleContext and func = ?h and attr = False and d = True
            and s = exampleState] f g h a
    by blast
qed

text \<open>
  The claim as first stated, that the assertion fails for every function whose enclosing
  declaration is not a distributed actor class, does not hold: a function at top level with a
  parameter that is not Codable is rejected by the parameter loop, which returns true.
\<close>

theorem function_parent_assertion_counterexample:
  "\<not> enclosedByDistributedActorClass exampleContext
       (exampleFunc 102 [exampleParam 2 ''first'' ''Socket''] ''String'') exampleState
   \<and> checkDistributedFunction exampleContext
       (exampleFunc 102 [exampleParam 2 ''first'' ''Socket''] ''String'') False exampleState =
     (Inr True, exampleState)"
  by (simp add: checkDistributedFunction_def exampleContext_def exampleState_def exampleParam_def
        exampleFunc_def typeIsCodable_def parameterIsCodable_def
        enclosedByDistributedActorClass_def)

subsection \<open>The actor declaration checker\<close>













end
